theory Spec2Isabelle
  imports Main
begin

section \<open>Data model of \<open>asset_automation_evaluator.py\<close>\<close>

subsection \<open>Conditions\<close>

text \<open>
  The four condition classes of the source.  A rule is an object of the abstract type
  \<open>'r\<close>; the methods the evaluator calls on it are collected in \<open>rule_methods\<close> below.
  Each class is a named tuple: a \<open>RuleCondition\<close> holds its rule, the three others hold
  the sequence they were constructed with.  Two conditions are equal when they are of
  the same class and hold equal fields.  (The classes are named tuples, whose \<open>==\<close>
  compares the fields only; the equality of the datatype is the finer one and implies
  it.)
\<close>

datatype 'r AutomationCondition =
    is_RuleCondition: RuleCondition 'r
  | is_AndAutomationCondition: AndAutomationCondition "'r AutomationCondition list"
  | is_OrAutomationCondition: OrAutomationCondition "'r AutomationCondition list"
  | is_NorAutomationCondition: NorAutomationCondition "'r AutomationCondition list"

text \<open>
  What the functions below can raise: the abstract property \<open>children\<close>, the unpacking
  of a sequence into two names, and an index out of range.
\<close>

datatype error = NotImplementedError | ValueError | IndexError

text \<open>
  The attribute \<open>children\<close>.  The base class \<open>AutomationCondition\<close> declares it as an
  abstract property whose body is \<open>raise NotImplementedError()\<close>.  Every condition class
  names \<open>AutomationCondition\<close> before its named-tuple base, so \<open>AutomationCondition\<close>
  precedes the tuple class in the method resolution order, and a property found on the
  type takes precedence over the tuple field of the same name.  Reading
  \<open>self.children\<close> therefore runs the body of the property on a node of any of the four
  classes: the sequence an AND, OR or NOR node was constructed with is stored in the
  tuple, but this attribute does not deliver it.
\<close>

fun children :: "'r AutomationCondition \<Rightarrow> error + 'r AutomationCondition list" where
  "children self = Inl NotImplementedError"

text \<open>Indexing a list, \<open>xs[i]\<close> for an index that is not negative.\<close>

definition getitem :: "'a list \<Rightarrow> nat \<Rightarrow> error + 'a" where
  "getitem xs i = (if i < length xs then Inr (xs ! i) else Inl IndexError)"

text \<open>
  The operators \<open>&\<close>, \<open>|\<close> and \<open>~\<close> (\<open>__and__\<close>, \<open>__or__\<close>, \<open>__invert__\<close>).  Behind its
  \<open>isinstance\<close> test each reads \<open>self.children\<close>.
\<close>

definition AutomationCondition_and ::
    "'r AutomationCondition \<Rightarrow> 'r AutomationCondition \<Rightarrow> error + 'r AutomationCondition" where
  "AutomationCondition_and self other =
     (if is_AndAutomationCondition self then
        (case children self of
           Inl e \<Rightarrow> Inl e
         | Inr cs \<Rightarrow> Inr (AndAutomationCondition (cs @ [other])))
      else Inr (AndAutomationCondition [self, other]))"

definition AutomationCondition_or ::
    "'r AutomationCondition \<Rightarrow> 'r AutomationCondition \<Rightarrow> error + 'r AutomationCondition" where
  "AutomationCondition_or self other =
     (if is_OrAutomationCondition self then
        (case children self of
           Inl e \<Rightarrow> Inl e
         | Inr cs \<Rightarrow> Inr (OrAutomationCondition (cs @ [other])))
      else Inr (OrAutomationCondition [self, other]))"

definition AutomationCondition_invert ::
    "'r AutomationCondition \<Rightarrow> error + 'r AutomationCondition" where
  "AutomationCondition_invert self =
     (if is_OrAutomationCondition self then
        (case children self of
           Inl e \<Rightarrow> Inl e
         | Inr cs \<Rightarrow> Inr (NorAutomationCondition cs))
      else if is_NorAutomationCondition self then
        (case children self of
           Inl e \<Rightarrow> Inl e
         | Inr cs \<Rightarrow> Inr (OrAutomationCondition cs))
      else Inr (NorAutomationCondition [self]))"

text \<open>
  The property \<open>is_legacy\<close>.  Python's \<open>and\<close> evaluates its operands from the left and
  stops at the first false one; each of the last three operands reads
  \<open>self.children\<close> anew.
\<close>

definition is_legacy :: "'r AutomationCondition \<Rightarrow> error + bool" where
  "is_legacy self =
     (if \<not> is_AndAutomationCondition self then Inr False
      else case children self of
        Inl e \<Rightarrow> Inl e
      | Inr cs \<Rightarrow>
          if length cs \<noteq> 2 then Inr False
          else case children self of
            Inl e \<Rightarrow> Inl e
          | Inr cs0 \<Rightarrow>
              (case getitem cs0 0 of
                 Inl e \<Rightarrow> Inl e
               | Inr c0 \<Rightarrow>
                   if \<not> is_OrAutomationCondition c0 then Inr False
                   else case children self of
                     Inl e \<Rightarrow> Inl e
                   | Inr cs1 \<Rightarrow>
                       (case getitem cs1 1 of
                          Inl e \<Rightarrow> Inl e
                        | Inr c1 \<Rightarrow> Inr (is_NorAutomationCondition c1))))"

subsection \<open>Asset subsets\<close>

text \<open>
  Modelled from the spec: the class \<open>AssetSubset\<close> (module \<open>asset_subset\<close>) is not among
  the sources.  The spec describes it as an immutable set-like value over the partitions
  of one asset with union, intersection, difference and size, so a subset of the asset
  under evaluation is a set of partition keys \<open>'p\<close>: \<open>|\<close> is \<open>\<union>\<close>, \<open>&\<close> is \<open>\<inter>\<close>,
  \<open>-\<close> is set difference and \<open>size\<close> is \<open>card\<close>.
\<close>

type_synonym 'p AssetSubset = "'p set"

definition empty_subset :: "'p AssetSubset" where
  "empty_subset = {}"

definition from_asset_partitions_set :: "'p set \<Rightarrow> 'p AssetSubset" where
  "from_asset_partitions_set asset_partitions = asset_partitions"

text \<open>\<open>RuleEvaluationResults\<close>: pairs of evaluation data and the asset partitions it holds for.\<close>

type_synonym ('d, 'p) RuleEvaluationResults = "('d \<times> 'p set) list"

subsection \<open>Evaluation records\<close>

datatype ('r, 'p, 'd) ConditionEvaluation = ConditionEvaluation
  (condition: "'r AutomationCondition")
  (true_subset: "'p AssetSubset")
  (candidate_subset: "'p AssetSubset")
  (discard_subset: "'p AssetSubset option")
  (discard_results: "('d, 'p) RuleEvaluationResults")
  (results: "('d, 'p) RuleEvaluationResults")
  (child_evaluations: "('r, 'p, 'd) ConditionEvaluation list")

subsection \<open>Evaluation contexts\<close>

text \<open>
  Modelled from the spec: the class \<open>AssetAutomationConditionEvaluationContext\<close> (module
  \<open>asset_automation_condition_context\<close>) is not among the sources.  The source reads
  its \<open>candidate_subset\<close> and \<open>asset_context\<close>, builds a copy with another candidate
  subset (\<open>dataclasses.replace\<close>, \<open>with_candidate_subset\<close>) and a context for a child
  condition (\<open>for_child\<close>); the spec asks for immutable context values where each call
  receives a freshly constructed narrowed context.  The asset-level context is opaque
  (\<open>'a\<close>).
\<close>

record ('r, 'p, 'a) AssetAutomationConditionEvaluationContext =
  asset_context :: 'a
  context_condition :: "'r AutomationCondition"
  context_candidate_subset :: "'p AssetSubset"

definition for_child ::
  "('r, 'p, 'a) AssetAutomationConditionEvaluationContext \<Rightarrow> 'r AutomationCondition \<Rightarrow>
   'p AssetSubset \<Rightarrow> ('r, 'p, 'a) AssetAutomationConditionEvaluationContext" where
  "for_child ctx child running =
     ctx\<lparr>context_condition := child, context_candidate_subset := running\<rparr>"

definition with_candidate_subset ::
  "('r, 'p, 'a) AssetAutomationConditionEvaluationContext \<Rightarrow> 'p AssetSubset \<Rightarrow>
   ('r, 'p, 'a) AssetAutomationConditionEvaluationContext" where
  "with_candidate_subset ctx running = ctx\<lparr>context_candidate_subset := running\<rparr>"

subsection \<open>Rules and the verbose log\<close>

datatype AutoMaterializeDecisionType = MATERIALIZE | SKIP | DISCARD

text \<open>
  The methods of \<open>AutoMaterializeRule\<close> that the evaluator calls, for rules \<open>'r\<close> with
  snapshots \<open>'s\<close>, and the constructor of the discard rule.  The rule classes themselves
  (module \<open>auto_materialize_rule\<close>) are not among the sources, so they are parameters.
  \<open>evaluate_for_asset\<close> gives the results a rule returns in a context; an exception
  inside a rule leaves \<open>evaluate\<close> without any evaluation record, and the functions below
  describe the passes in which every rule returns.
\<close>

record ('r, 's, 'p, 'd, 'a) rule_methods =
  to_snapshot :: "'r \<Rightarrow> 's"
  decision_type :: "'r \<Rightarrow> AutoMaterializeDecisionType"
  evaluate_for_asset ::
    "'r \<Rightarrow> ('r, 'p, 'a) AssetAutomationConditionEvaluationContext \<Rightarrow> ('d, 'p) RuleEvaluationResults"
  DiscardOnMaxMaterializationsExceededRule :: "int \<Rightarrow> 'r"

text \<open>
  The two messages \<open>RuleCondition.evaluate\<close> hands to \<open>_verbose_log_fn\<close>; the log is
  the list of messages written so far.
\<close>

datatype 's log_message = Evaluating_rule 's | Rule_returned nat

section \<open>Evaluation of the condition tree\<close>

text \<open>
  \<open>evaluate\<close> either returns an evaluation or raises; in both cases the messages written
  to the log so far stay written, so a result is a pair of the outcome and the log.

  The three loops over the children of a node carry the loop variables of the source:
  the context (which the AND and NOR loops rebind in every iteration), the running
  \<open>true_subset\<close>, the list \<open>child_evaluations\<close> and the log.  The argument \<open>ev\<close> is the
  \<open>evaluate\<close> method called on each child; an exception in a child ends the loop.
\<close>

type_synonym ('r, 's, 'p, 'd, 'a) evaluate_method =
  "'r AutomationCondition \<Rightarrow> ('r, 'p, 'a) AssetAutomationConditionEvaluationContext \<Rightarrow>
   's log_message list \<Rightarrow> (error + ('r, 'p, 'd) ConditionEvaluation) \<times> 's log_message list"

primrec and_loop ::
    "('r, 's, 'p, 'd, 'a) evaluate_method \<Rightarrow> 'r AutomationCondition list \<Rightarrow>
     ('r, 'p, 'a) AssetAutomationConditionEvaluationContext \<Rightarrow> 'p AssetSubset \<Rightarrow>
     ('r, 'p, 'd) ConditionEvaluation list \<Rightarrow> 's log_message list \<Rightarrow>
     (error + ('r, 'p, 'a) AssetAutomationConditionEvaluationContext \<times> 'p AssetSubset \<times>
              ('r, 'p, 'd) ConditionEvaluation list) \<times> 's log_message list" where
  "and_loop ev [] ctx running evaluations log = (Inr (ctx, running, evaluations), log)"
| "and_loop ev (child # rest) ctx running evaluations log =
     (let ctx' = for_child ctx child running in
      case ev child ctx' log of
        (Inl e, log') \<Rightarrow> (Inl e, log')
      | (Inr result, log') \<Rightarrow>
          and_loop ev rest ctx' (running \<inter> true_subset result) (evaluations @ [result]) log')"

primrec or_loop ::
    "('r, 's, 'p, 'd, 'a) evaluate_method \<Rightarrow> 'r AutomationCondition list \<Rightarrow>
     ('r, 'p, 'a) AssetAutomationConditionEvaluationContext \<Rightarrow> 'p AssetSubset \<Rightarrow>
     ('r, 'p, 'd) ConditionEvaluation list \<Rightarrow> 's log_message list \<Rightarrow>
     (error + 'p AssetSubset \<times> ('r, 'p, 'd) ConditionEvaluation list) \<times> 's log_message list" where
  "or_loop ev [] ctx running evaluations log = (Inr (running, evaluations), log)"
| "or_loop ev (child # rest) ctx running evaluations log =
     (case ev child ctx log of
        (Inl e, log') \<Rightarrow> (Inl e, log')
      | (Inr result, log') \<Rightarrow>
          or_loop ev rest ctx (running \<union> true_subset result) (evaluations @ [result]) log')"

primrec nor_loop ::
    "('r, 's, 'p, 'd, 'a) evaluate_method \<Rightarrow> 'r AutomationCondition list \<Rightarrow>
     ('r, 'p, 'a) AssetAutomationConditionEvaluationContext \<Rightarrow> 'p AssetSubset \<Rightarrow>
     ('r, 'p, 'd) ConditionEvaluation list \<Rightarrow> 's log_message list \<Rightarrow>
     (error + ('r, 'p, 'a) AssetAutomationConditionEvaluationContext \<times> 'p AssetSubset \<times>
              ('r, 'p, 'd) ConditionEvaluation list) \<times> 's log_message list" where
  "nor_loop ev [] ctx running evaluations log = (Inr (ctx, running, evaluations), log)"
| "nor_loop ev (child # rest) ctx running evaluations log =
     (let ctx' = with_candidate_subset ctx running in
      case ev child ctx' log of
        (Inl e, log') \<Rightarrow> (Inl e, log')
      | (Inr result, log') \<Rightarrow>
          nor_loop ev rest ctx' (running - true_subset result) (evaluations @ [result]) log')"

lemma and_loop_cong [fundef_cong]:
  "cs = cs' \<Longrightarrow>
   (\<And>child ctx log. child \<in> set cs' \<Longrightarrow> ev child ctx log = ev' child ctx log) \<Longrightarrow>
   and_loop ev cs ctx running evaluations log =
   and_loop ev' cs' ctx running evaluations log"
proof (induction cs' arbitrary: cs ctx running evaluations log)
  case Nil
  then show ?case by simp
next
  case (Cons a rest)
  have head: "\<And>ctx log. ev a ctx log = ev' a ctx log"
    using Cons.prems(2) by simp
  have tail: "\<And>ctx running evaluations log.
      and_loop ev rest ctx running evaluations log = and_loop ev' rest ctx running evaluations log"
    using Cons.IH[OF refl] Cons.prems(2) by simp
  show ?case using Cons.prems(1) by (simp add: head tail Let_def split: prod.split sum.split)
qed

lemma or_loop_cong [fundef_cong]:
  "cs = cs' \<Longrightarrow>
   (\<And>child ctx log. child \<in> set cs' \<Longrightarrow> ev child ctx log = ev' child ctx log) \<Longrightarrow>
   or_loop ev cs ctx running evaluations log =
   or_loop ev' cs' ctx running evaluations log"
proof (induction cs' arbitrary: cs ctx running evaluations log)
  case Nil
  then show ?case by simp
next
  case (Cons a rest)
  have head: "\<And>ctx log. ev a ctx log = ev' a ctx log"
    using Cons.prems(2) by simp
  have tail: "\<And>ctx running evaluations log.
      or_loop ev rest ctx running evaluations log = or_loop ev' rest ctx running evaluations log"
    using Cons.IH[OF refl] Cons.prems(2) by simp
  show ?case using Cons.prems(1) by (simp add: head tail Let_def split: prod.split sum.split)
qed

lemma nor_loop_cong [fundef_cong]:
  "cs = cs' \<Longrightarrow>
   (\<And>child ctx log. child \<in> set cs' \<Longrightarrow> ev child ctx log = ev' child ctx log) \<Longrightarrow>
   nor_loop ev cs ctx running evaluations log =
   nor_loop ev' cs' ctx running evaluations log"
proof (induction cs' arbitrary: cs ctx running evaluations log)
  case Nil
  then show ?case by simp
next
  case (Cons a rest)
  have head: "\<And>ctx log. ev a ctx log = ev' a ctx log"
    using Cons.prems(2) by simp
  have tail: "\<And>ctx running evaluations log.
      nor_loop ev rest ctx running evaluations log = nor_loop ev' rest ctx running evaluations log"
    using Cons.IH[OF refl] Cons.prems(2) by simp
  show ?case using Cons.prems(1) by (simp add: head tail Let_def split: prod.split sum.split)
qed

text \<open>
  \<open>evaluate\<close>, the method of the four condition classes.  \<open>RuleCondition.evaluate\<close>
  writes to the log before and after it calls the rule.  The three other methods set
  up their loop variables and then read \<open>self.children\<close> for the loop.
\<close>

fun evaluate ::
    "('r, 's, 'p, 'd, 'a) rule_methods \<Rightarrow> ('r, 's, 'p, 'd, 'a) evaluate_method" where
  "evaluate M (RuleCondition rule) ctx log =
     (let log1 = log @ [Evaluating_rule (to_snapshot M rule)];
          rule_results = evaluate_for_asset M rule ctx;
          running = fold (\<lambda>(_, asset_partitions) acc. acc \<union> from_asset_partitions_set asset_partitions)
                      rule_results empty_subset;
          log2 = log1 @ [Rule_returned (card running)]
      in (Inr (ConditionEvaluation (RuleCondition rule) running (context_candidate_subset ctx)
                 None [] rule_results []), log2))"
| "evaluate M (AndAutomationCondition stored) ctx log =
     (case children (AndAutomationCondition stored) of
        Inl e \<Rightarrow> (Inl e, log)
      | Inr cs \<Rightarrow>
          (case and_loop (evaluate M) cs ctx (context_candidate_subset ctx) [] log of
             (Inl e, log') \<Rightarrow> (Inl e, log')
           | (Inr (ctx', running, evaluations), log') \<Rightarrow>
               (Inr (ConditionEvaluation (AndAutomationCondition stored) running
                       (context_candidate_subset ctx') None [] [] evaluations), log')))"
| "evaluate M (OrAutomationCondition stored) ctx log =
     (case children (OrAutomationCondition stored) of
        Inl e \<Rightarrow> (Inl e, log)
      | Inr cs \<Rightarrow>
          (case or_loop (evaluate M) cs ctx empty_subset [] log of
             (Inl e, log') \<Rightarrow> (Inl e, log')
           | (Inr (running, evaluations), log') \<Rightarrow>
               (Inr (ConditionEvaluation (OrAutomationCondition stored) running
                       (context_candidate_subset ctx) None [] [] evaluations), log')))"
| "evaluate M (NorAutomationCondition stored) ctx log =
     (case children (NorAutomationCondition stored) of
        Inl e \<Rightarrow> (Inl e, log)
      | Inr cs \<Rightarrow>
          (case nor_loop (evaluate M) cs ctx (context_candidate_subset ctx) [] log of
             (Inl e, log') \<Rightarrow> (Inl e, log')
           | (Inr (ctx', running, evaluations), log') \<Rightarrow>
               (Inr (ConditionEvaluation (NorAutomationCondition stored) running
                       (context_candidate_subset ctx') None [] [] evaluations), log')))"

section \<open>Conversion to and from the flat evaluation record\<close>

datatype ('s, 'd) AutoMaterializeRuleEvaluation = AutoMaterializeRuleEvaluation
  (rule_snapshot: 's)
  (evaluation_data: 'd)

text \<open>
  The property \<open>all_results\<close>: the node's own results when its condition is a
  \<open>RuleCondition\<close>, then the loop over \<open>child_evaluations\<close> that appends each child's
  \<open>all_results\<close>.
\<close>

fun all_results ::
    "('r, 's, 'p, 'd, 'a) rule_methods \<Rightarrow> ('r, 'p, 'd) ConditionEvaluation \<Rightarrow>
     (('s, 'd) AutoMaterializeRuleEvaluation \<times> 'p set) list" where
  "all_results M (ConditionEvaluation cond true_s candidate_s discard_s discard_rs rs evaluations) =
     fold (\<lambda>child acc. acc @ all_results M child) evaluations
       (case cond of
          RuleCondition rule \<Rightarrow>
            map (\<lambda>(data, asset_partitions).
                   (AutoMaterializeRuleEvaluation (to_snapshot M rule) data, asset_partitions)) rs
        | _ \<Rightarrow> [])"

text \<open>
  The flattening as the spec words it, for comparison with \<open>all_results\<close>: the nodes of
  the tree in depth-first pre-order, children in their stored order, and what a single
  node contributes, namely its own \<open>results\<close> as pairs of a rule evaluation and a set of
  asset partitions when its condition is a \<open>RuleCondition\<close>, and nothing otherwise.
\<close>

fun preorder_traversal ::
    "('r, 'p, 'd) ConditionEvaluation \<Rightarrow> ('r, 'p, 'd) ConditionEvaluation list" where
  "preorder_traversal (ConditionEvaluation cond true_s candidate_s discard_s discard_rs rs evaluations) =
     ConditionEvaluation cond true_s candidate_s discard_s discard_rs rs evaluations
       # concat (map preorder_traversal evaluations)"

definition own_results ::
    "('r, 's, 'p, 'd, 'a) rule_methods \<Rightarrow> ('r, 'p, 'd) ConditionEvaluation \<Rightarrow>
     (('s, 'd) AutoMaterializeRuleEvaluation \<times> 'p set) list" where
  "own_results M e =
     (case condition e of
        RuleCondition rule \<Rightarrow>
          map (\<lambda>(data, asset_partitions).
                 (AutoMaterializeRuleEvaluation (to_snapshot M rule) data, asset_partitions)) (results e)
      | _ \<Rightarrow> [])"

text \<open>
  The part of the class \<open>AutoMaterializeAssetEvaluation\<close> (module
  \<open>auto_materialize_rule_evaluation\<close>, not among the sources) that \<open>from_evaluation\<close>
  reads; the asset graph is opaque (\<open>'g\<close>).
\<close>

record ('s, 'p, 'd, 'g) AutoMaterializeAssetEvaluation =
  rule_snapshots :: "'s set option"
  get_evaluated_subset :: "'g \<Rightarrow> 'p AssetSubset"
  get_rule_evaluation_results :: "'s \<Rightarrow> 'g \<Rightarrow> ('d, 'p) RuleEvaluationResults"

definition from_evaluation_and_rule ::
    "('r, 's, 'p, 'd, 'a) rule_methods \<Rightarrow> ('s, 'p, 'd, 'g) AutoMaterializeAssetEvaluation \<Rightarrow>
     'g \<Rightarrow> 'r \<Rightarrow> ('r, 'p, 'd) ConditionEvaluation" where
  "from_evaluation_and_rule M evaluation asset_graph rule =
     ConditionEvaluation (RuleCondition rule) empty_subset
       (if decision_type M rule = MATERIALIZE then empty_subset
        else get_evaluated_subset evaluation asset_graph)
       (Some empty_subset) []
       (get_rule_evaluation_results evaluation (to_snapshot M rule) asset_graph) []"

text \<open>
  The list comprehension of \<open>from_evaluation\<close>: the rules of those conditions in \<open>cs\<close>
  that are \<open>RuleCondition\<close>s and whose snapshot is in \<open>evaluation.rule_snapshots or set()\<close>.
\<close>

definition rules_in_snapshots ::
    "('r, 's, 'p, 'd, 'a) rule_methods \<Rightarrow> ('s, 'p, 'd, 'g) AutoMaterializeAssetEvaluation \<Rightarrow>
     'r AutomationCondition list \<Rightarrow> 'r list" where
  "rules_in_snapshots M evaluation cs =
     List.map_filter
       (\<lambda>c. case c of
          RuleCondition rule \<Rightarrow>
            if to_snapshot M rule \<in> (case rule_snapshots evaluation of None \<Rightarrow> {} | Some snapshots \<Rightarrow> snapshots)
            then Some rule else None
        | _ \<Rightarrow> None) cs"

definition from_evaluation ::
    "('r, 's, 'p, 'd, 'a) rule_methods \<Rightarrow> 'r AutomationCondition \<Rightarrow>
     ('s, 'p, 'd, 'g) AutoMaterializeAssetEvaluation \<Rightarrow> 'g \<Rightarrow>
     error + ('r, 'p, 'd) ConditionEvaluation option" where
  "from_evaluation M cond evaluation asset_graph =
     (case is_legacy cond of
        Inl e \<Rightarrow> Inl e
      | Inr legacy \<Rightarrow>
          if \<not> legacy then Inr None
          else case children cond of
            Inl e \<Rightarrow> Inl e
          | Inr [materialize_condition, skip_condition] \<Rightarrow>
              (case children materialize_condition of
                 Inl e \<Rightarrow> Inl e
               | Inr materialize_children \<Rightarrow>
              (case children skip_condition of
                 Inl e \<Rightarrow> Inl e
               | Inr skip_children \<Rightarrow>
                   let materialize_rules = rules_in_snapshots M evaluation materialize_children;
                       skip_rules = rules_in_snapshots M evaluation skip_children;
                       child_list =
                         [ConditionEvaluation materialize_condition empty_subset empty_subset None [] []
                            (map (from_evaluation_and_rule M evaluation asset_graph) materialize_rules),
                          ConditionEvaluation skip_condition empty_subset empty_subset None [] []
                            (map (from_evaluation_and_rule M evaluation asset_graph) skip_rules)]
                   in Inr (Some (ConditionEvaluation cond (get_evaluated_subset evaluation asset_graph)
                                   empty_subset None [] [] child_list))))
          | Inr _ \<Rightarrow> Inl ValueError)"

section \<open>The evaluator of an asset's policy\<close>

text \<open>
  The evaluator: a condition and the optional cap \<open>max_materializations_per_minute\<close>
  (1 when the caller gives none).
\<close>

record 'r AssetAutomationEvaluator =
  evaluator_condition :: "'r AutomationCondition"
  max_materializations_per_minute :: "int option"

text \<open>
  The methods of the asset-level context \<open>AssetAutomationEvaluationContext\<close> (not among
  the sources) that \<open>AssetAutomationEvaluator.evaluate\<close> calls; \<open>'c\<close> is the cursor.  Its
  \<open>empty_subset()\<close> is \<open>empty_subset\<close>.
\<close>

record ('r, 'p, 'a, 'c) asset_context_methods =
  get_root_condition_context :: "'a \<Rightarrow> ('r, 'p, 'a) AssetAutomationConditionEvaluationContext"
  get_new_asset_cursor :: "'a \<Rightarrow> 'p AssetSubset \<Rightarrow> 'p AssetSubset \<Rightarrow> 'c"

text \<open>\<open>condition_evaluation._replace(discard_subset=to_discard)\<close>\<close>

fun replace_discard_subset ::
    "('r, 'p, 'd) ConditionEvaluation \<Rightarrow> 'p AssetSubset \<Rightarrow> ('r, 'p, 'd) ConditionEvaluation" where
  "replace_discard_subset
     (ConditionEvaluation cond true_s candidate_s discard_s discard_rs rs evaluations) to_discard =
     ConditionEvaluation cond true_s candidate_s (Some to_discard) discard_rs rs evaluations"

text \<open>
  \<open>AssetAutomationEvaluator.evaluate\<close>.  An exception of either call of \<open>evaluate\<close> leaves
  the method at once.
\<close>

definition AssetAutomationEvaluator_evaluate ::
    "('r, 's, 'p, 'd, 'a) rule_methods \<Rightarrow> ('r, 'p, 'a, 'c) asset_context_methods \<Rightarrow>
     'r AssetAutomationEvaluator \<Rightarrow> 'a \<Rightarrow> 's log_message list \<Rightarrow>
     (error + ('r, 'p, 'd) ConditionEvaluation \<times> 'c \<times> 'p AssetSubset) \<times> 's log_message list" where
  "AssetAutomationEvaluator_evaluate M C self actx log =
     (let condition_context = get_root_condition_context C actx in
      case evaluate M (evaluator_condition self) condition_context log of
        (Inl e, log1) \<Rightarrow> (Inl e, log1)
      | (Inr condition_evaluation, log1) \<Rightarrow>
          (case (case max_materializations_per_minute self of
                   None \<Rightarrow> (Inr empty_subset, log1)
                 | Some limit \<Rightarrow>
                     let discard_context =
                           condition_context\<lparr>context_candidate_subset := true_subset condition_evaluation\<rparr>;
                         cond = RuleCondition (DiscardOnMaxMaterializationsExceededRule M limit)
                     in case evaluate M cond discard_context log1 of
                          (Inl e, log') \<Rightarrow> (Inl e, log')
                        | (Inr discard_condition_evaluation, log') \<Rightarrow>
                            (Inr (true_subset discard_condition_evaluation), log')) of
             (Inl e, log2) \<Rightarrow> (Inl e, log2)
           | (Inr to_discard, log2) \<Rightarrow>
               (Inr (replace_discard_subset condition_evaluation to_discard,
                     get_new_asset_cursor C actx (true_subset condition_evaluation) to_discard,
                     to_discard), log2)))"

section \<open>A small asset for concrete evaluations\<close>

text \<open>
  Rules are numbered and are their own snapshots.  Rule 0 holds of the candidates among
  the partitions 1 and 2, rule 1 of the candidates among 2 and 3, the other rules below
  100 of none; the discard rule for the limit \<open>n\<close> is rule \<open>100 + n\<close> and discards the
  candidate 2.  The asset has the partitions 1, 2 and 3.
\<close>

definition example_rules :: "(nat, nat, nat, unit, unit) rule_methods" where
  "example_rules =
     \<lparr>to_snapshot = (\<lambda>rule. rule),
      decision_type = (\<lambda>rule. if rule < 100 then MATERIALIZE else DISCARD),
      evaluate_for_asset = (\<lambda>rule ctx.
        [((), context_candidate_subset ctx \<inter>
                (if rule = 0 then {1, 2} else if rule = 1 then {2, 3}
                 else if rule < 100 then {} else {2}))]),
      DiscardOnMaxMaterializationsExceededRule = (\<lambda>limit. 100 + nat limit)\<rparr>"

definition example_context :: "(nat, nat, unit) AssetAutomationConditionEvaluationContext" where
  "example_context =
     \<lparr>asset_context = (), context_condition = RuleCondition 0, context_candidate_subset = {1, 2, 3}\<rparr>"

text \<open>
  An asset-level context whose root condition context is \<open>example_context\<close> and whose
  cursor is the pair of the two subsets it is given.
\<close>

definition example_asset_methods :: "(nat, nat, unit, nat set \<times> nat set) asset_context_methods" where
  "example_asset_methods =
     \<lparr>get_root_condition_context = (\<lambda>actx. example_context),
      get_new_asset_cursor = (\<lambda>actx to_materialize to_discard. (to_materialize, to_discard))\<rparr>"

section \<open>Evaluation of AND, OR and NOR nodes\<close>

text \<open>
  Claim C1.  The claim says that an AND node evaluates all its children in order, each
  in the candidate subset narrowed by the children before it, and returns the
  intersection.  In the source the method reads \<open>self.children\<close> for its loop, and that
  read raises: for every AND node, every context and every log, \<open>evaluate\<close> raises
  \<open>NotImplementedError\<close> before any child is evaluated and before anything is written
  to the log.
\<close>

theorem AndAutomationCondition_evaluate_raises:
  "evaluate M (AndAutomationCondition cs) ctx log = (Inl NotImplementedError, log)"
  by simp

text \<open>
  Claim C3.  The claim says that a NOR node evaluates its children in order, each in the
  candidate subset left by the children before it, and returns what remains.  In the
  source the method reads \<open>self.children\<close> for its loop, and that read raises: for
  every NOR node \<open>evaluate\<close> raises \<open>NotImplementedError\<close> before any child is evaluated.
\<close>

theorem NorAutomationCondition_evaluate_raises:
  "evaluate M (NorAutomationCondition cs) ctx log = (Inl NotImplementedError, log)"
  by simp

text \<open>
  Claim C4.  The claim says that an OR node evaluates every child in its own, unnarrowed
  context and returns the union.  In the source the method reads \<open>self.children\<close> for
  its loop, and that read raises: for every OR node \<open>evaluate\<close> raises
  \<open>NotImplementedError\<close> before any child is evaluated.
\<close>

theorem OrAutomationCondition_evaluate_raises:
  "evaluate M (OrAutomationCondition cs) ctx log = (Inl NotImplementedError, log)"
  by simp

subsection \<open>The candidate subset a node records\<close>

text \<open>Only a rule node returns an evaluation.\<close>

lemma evaluate_returns_only_for_rule:
  assumes "evaluate M c ctx log = (Inr e, log')"
  shows "is_RuleCondition c"
  using assms by (cases c) simp_all




section \<open>Construction of conditions\<close>

text \<open>What the three operators return, and when they raise.\<close>

lemma AutomationCondition_or_returns:
  "AutomationCondition_or c1 c2 =
     (if is_OrAutomationCondition c1 then Inl NotImplementedError
      else Inr (OrAutomationCondition [c1, c2]))"
  by (simp add: AutomationCondition_or_def)

lemma AutomationCondition_and_returns:
  "AutomationCondition_and c1 c2 =
     (if is_AndAutomationCondition c1 then Inl NotImplementedError
      else Inr (AndAutomationCondition [c1, c2]))"
  by (simp add: AutomationCondition_and_def)

lemma AutomationCondition_invert_returns:
  "AutomationCondition_invert c =
     (if is_OrAutomationCondition c \<or> is_NorAutomationCondition c then Inl NotImplementedError
      else Inr (NorAutomationCondition [c]))"
  by (simp add: AutomationCondition_invert_def)

text \<open>
  Claim C5.  The claim says that negating \<open>c1 | c2\<close> yields the NOR node over \<open>[c1, c2]\<close>
  and negating again the OR node.  In the source, for all conditions \<open>c1\<close> and \<open>c2\<close>,
  computing \<open>~(c1 | c2)\<close> raises \<open>NotImplementedError\<close>: either \<open>c1\<close> is an OR node and
  \<open>|\<close> raises when it reads \<open>self.children\<close>, or \<open>c1 | c2\<close> is the OR node over
  \<open>[c1, c2]\<close> and \<open>~\<close> raises when it reads the children of that node.  For two rule
  conditions it is the negation that raises.
\<close>

theorem invert_of_or_raises:
  "(case AutomationCondition_or c1 c2 of
      Inl e \<Rightarrow> Inl e
    | Inr c \<Rightarrow> AutomationCondition_invert c) = Inl NotImplementedError \<and>
   AutomationCondition_or (RuleCondition r1) (RuleCondition r2)
     = Inr (OrAutomationCondition [RuleCondition r1, RuleCondition r2]) \<and>
   AutomationCondition_invert (OrAutomationCondition [RuleCondition r1, RuleCondition r2])
     = Inl NotImplementedError"
  by (simp add: AutomationCondition_or_returns AutomationCondition_invert_returns)

text \<open>
  Claim C6.  The claim says that \<open>(c1 & c2) & c3\<close> is a single AND node with the three
  children \<open>[c1, c2, c3]\<close>.  In the source, for all conditions \<open>c1\<close>, \<open>c2\<close> and \<open>c3\<close>,
  computing \<open>(c1 & c2) & c3\<close> raises \<open>NotImplementedError\<close>: either \<open>c1\<close> is an AND node
  and the first \<open>&\<close> raises when it reads \<open>self.children\<close>, or \<open>c1 & c2\<close> is the AND
  node over \<open>[c1, c2]\<close> and the second \<open>&\<close> raises when it reads the children of that
  node.  For three rule conditions it is the second \<open>&\<close> that raises.
\<close>

theorem and_of_and_raises:
  "(case AutomationCondition_and c1 c2 of
      Inl e \<Rightarrow> Inl e
    | Inr c \<Rightarrow> AutomationCondition_and c c3) = Inl NotImplementedError \<and>
   AutomationCondition_and (RuleCondition r1) (RuleCondition r2)
     = Inr (AndAutomationCondition [RuleCondition r1, RuleCondition r2]) \<and>
   AutomationCondition_and (AndAutomationCondition [RuleCondition r1, RuleCondition r2]) (RuleCondition r3)
     = Inl NotImplementedError"
  by (simp add: AutomationCondition_and_returns)

text \<open>
  The other half of that claim holds where nothing is merged: for \<open>c1\<close> and \<open>c2\<close> that
  are not AND nodes, \<open>c1 & (c2 & c3)\<close> is the AND node with the two children \<open>c1\<close> and
  \<open>c2 & c3\<close>.
\<close>

lemma and_right_nested:
  "\<not> is_AndAutomationCondition c1 \<Longrightarrow> \<not> is_AndAutomationCondition c2 \<Longrightarrow>
   (case AutomationCondition_and c2 c3 of
      Inl e \<Rightarrow> Inl e
    | Inr c \<Rightarrow> AutomationCondition_and c1 c)
   = Inr (AndAutomationCondition [c1, AndAutomationCondition [c2, c3]])"
  by (simp add: AutomationCondition_and_returns)

section \<open>Legacy conditions\<close>

lemma is_legacy_returns:
  "is_legacy c = (if is_AndAutomationCondition c then Inl NotImplementedError else Inr False)"
  by (simp add: is_legacy_def)

text \<open>
  Claim C7.  The claim says that \<open>is_legacy\<close> is \<open>True\<close> exactly for the AND nodes with two
  children, an OR node and a NOR node.  In the source the property reads
  \<open>len(self.children)\<close> of every AND node, and that read raises: \<open>is_legacy\<close> raises
  \<open>NotImplementedError\<close> for every AND node, among them \<open>AND(OR(a, b), NOR(c, d))\<close> and
  \<open>AND(a, b, c)\<close>, it is \<open>False\<close> for \<open>OR(AND(a, b), c)\<close>, and it is \<open>True\<close> for no
  condition.
\<close>

theorem is_legacy_raises_for_and:
  "is_legacy (AndAutomationCondition cs) = Inl NotImplementedError \<and>
   is_legacy (AndAutomationCondition [OrAutomationCondition [a, b], NorAutomationCondition [c, d]])
     = Inl NotImplementedError \<and>
   is_legacy (AndAutomationCondition [a, b, c]) = Inl NotImplementedError \<and>
   is_legacy (OrAutomationCondition [AndAutomationCondition [a, b], c]) = Inr False \<and>
   is_legacy x \<noteq> Inr True"
  by (simp add: is_legacy_returns)

lemma from_evaluation_returns:
  "from_evaluation M c evaluation asset_graph =
     (if is_AndAutomationCondition c then Inl NotImplementedError else Inr None)"
  by (simp add: from_evaluation_def is_legacy_returns)

text \<open>
  Claim C8.  The claim says that \<open>from_evaluation\<close> returns \<open>None\<close>, and does not raise,
  for a condition that is not legacy, and returns a tree for legacy conditions only.  In
  the source \<open>from_evaluation\<close> reads \<open>condition.is_legacy\<close> first, which raises for
  every AND node: \<open>from_evaluation\<close> raises \<open>NotImplementedError\<close> for every AND
  condition, among them the AND node over two rules, which is not of the legacy shape,
  and the nodes of the legacy shape, and it returns a tree for no condition.  (For the
  conditions that are not AND nodes it returns \<open>None\<close>, lemma \<open>from_evaluation_returns\<close>.)
\<close>

theorem from_evaluation_raises_for_and:
  "from_evaluation M (AndAutomationCondition cs) evaluation asset_graph = Inl NotImplementedError \<and>
   from_evaluation M (AndAutomationCondition [RuleCondition r1, RuleCondition r2]) evaluation asset_graph
     = Inl NotImplementedError \<and>
   from_evaluation M
     (AndAutomationCondition [OrAutomationCondition [a, b], NorAutomationCondition [c, d]])
     evaluation asset_graph = Inl NotImplementedError \<and>
   from_evaluation M x evaluation asset_graph \<noteq> Inr (Some t)"
  by (simp add: from_evaluation_returns)

section \<open>Flattening of an evaluation tree\<close>

lemma fold_append_concat:
  "fold (\<lambda>x acc. acc @ f x) xs init = init @ concat (map f xs)"
  by (induction xs arbitrary: init) simp_all

lemma concat_map_concat_map:
  "concat (map (\<lambda>x. concat (map f (g x))) xs) = concat (map f (concat (map g xs)))"
  by (induction xs) simp_all

lemma all_results_unfold:
  "all_results M e = own_results M e @ concat (map (all_results M) (child_evaluations e))"
  by (cases e) (simp add: own_results_def fold_append_concat split: AutomationCondition.split)

lemma all_results_preorder:
  "all_results M e = concat (map (own_results M) (preorder_traversal e))"
proof (induction e)
  case (ConditionEvaluation cond true_s candidate_s discard_s discard_rs rs evaluations)
  let ?e = "ConditionEvaluation cond true_s candidate_s discard_s discard_rs rs evaluations"
  have IH: "\<And>x. x \<in> set evaluations \<Longrightarrow>
              all_results M x = concat (map (own_results M) (preorder_traversal x))"
    using ConditionEvaluation by simp
  have "concat (map (all_results M) evaluations)
        = concat (map (\<lambda>x. concat (map (own_results M) (preorder_traversal x))) evaluations)"
    using IH by (simp cong: map_cong)
  also have "\<dots> = concat (map (own_results M) (concat (map preorder_traversal evaluations)))"
    by (rule concat_map_concat_map)
  finally have "concat (map (all_results M) evaluations)
        = concat (map (own_results M) (concat (map preorder_traversal evaluations)))" .
  then show ?case
    using all_results_unfold[of M ?e] by simp
qed

text \<open>
  Claim C9.  \<open>all_results\<close> of an evaluation tree is the concatenation, over the nodes of
  the tree in depth-first pre-order, of what each node contributes itself; equivalently
  it is the node's own contribution followed by the \<open>all_results\<close> of its children in
  their stored order.  A node whose condition is not a \<open>RuleCondition\<close> contributes
  nothing.
\<close>

theorem all_results_is_preorder_flattening:
  "all_results M e = concat (map (own_results M) (preorder_traversal e)) \<and>
   all_results M e = own_results M e @ concat (map (all_results M) (child_evaluations e)) \<and>
   (is_RuleCondition (condition e) \<or> own_results M e = [])"
proof -
  have "is_RuleCondition (condition e) \<or> own_results M e = []"
    by (cases "condition e") (simp_all add: own_results_def)
  then show ?thesis using all_results_preorder all_results_unfold by metis
qed

theorem all_results_is_preorder_flattening_witness:
  "all_results example_rules
     (ConditionEvaluation (AndAutomationCondition [RuleCondition 0, RuleCondition 1]) {2} {1, 2} None [] []
        [ConditionEvaluation (RuleCondition 0) {1, 2} {1, 2, 3} None [] [((), {1, 2})] [],
         ConditionEvaluation (RuleCondition 1) {2} {1, 2} None [] [((), {2})] []])
   = [(AutoMaterializeRuleEvaluation 0 (), {1, 2}), (AutoMaterializeRuleEvaluation 1 (), {2})]"
  using all_results_is_preorder_flattening [of example_rules
     "ConditionEvaluation (AndAutomationCondition [RuleCondition 0, RuleCondition 1]) {2} {1, 2} None [] []
        [ConditionEvaluation (RuleCondition 0) {1, 2} {1, 2, 3} None [] [((), {1, 2})] [],
         ConditionEvaluation (RuleCondition 1) {2} {1, 2} None [] [((), {2})] []]"]
  by (simp add: own_results_def example_rules_def)

section \<open>The evaluator and the discard rule\<close>

lemma discard_subset_replace [simp]:
  "discard_subset (replace_discard_subset e to_discard) = Some to_discard"
  by (cases e) simp

lemma evaluate_Rule_returns:
  "evaluate M (RuleCondition rule) ctx log =
     (Inr (ConditionEvaluation (RuleCondition rule)
             (fold (\<lambda>(_, asset_partitions) acc. acc \<union> from_asset_partitions_set asset_partitions)
                (evaluate_for_asset M rule ctx) empty_subset)
             (context_candidate_subset ctx) None [] (evaluate_for_asset M rule ctx) []),
      log @ [Evaluating_rule (to_snapshot M rule),
             Rule_returned (card (fold (\<lambda>(_, asset_partitions) acc. acc \<union> from_asset_partitions_set asset_partitions)
                (evaluate_for_asset M rule ctx) empty_subset))])"
  by (simp add: Let_def)

lemma evaluate_Rule_log:
  assumes "evaluate M (RuleCondition rule) ctx log = (Inr d, log')"
  shows "log' = log @ [Evaluating_rule (to_snapshot M rule), Rule_returned (card (true_subset d))]"
  using assms unfolding evaluate_Rule_returns by auto

lemma evaluate_Rule_never_raises:
  "evaluate M (RuleCondition rule) ctx log \<noteq> (Inl e, log')"
  unfolding evaluate_Rule_returns by simp

lemma AssetAutomationEvaluator_evaluate_None:
  assumes "max_materializations_per_minute self = None"
    and "evaluate M (evaluator_condition self) (get_root_condition_context C actx) log = (Inr ce, log1)"
  shows "AssetAutomationEvaluator_evaluate M C self actx log =
     (Inr (replace_discard_subset ce empty_subset,
           get_new_asset_cursor C actx (true_subset ce) empty_subset,
           empty_subset), log1)"
  using assms by (simp add: AssetAutomationEvaluator_evaluate_def Let_def)

lemma AssetAutomationEvaluator_evaluate_Some:
  assumes "max_materializations_per_minute self = Some limit"
    and "evaluate M (evaluator_condition self) (get_root_condition_context C actx) log = (Inr ce, log1)"
    and "evaluate M (RuleCondition (DiscardOnMaxMaterializationsExceededRule M limit))
           ((get_root_condition_context C actx)\<lparr>context_candidate_subset := true_subset ce\<rparr>) log1
         = (Inr d, log2)"
  shows "AssetAutomationEvaluator_evaluate M C self actx log =
     (Inr (replace_discard_subset ce (true_subset d),
           get_new_asset_cursor C actx (true_subset ce) (true_subset d),
           true_subset d), log2)"
  using assms(1,2)
  by (simp add: AssetAutomationEvaluator_evaluate_def Let_def assms(3) del: evaluate.simps)

lemma AssetAutomationEvaluator_evaluate_raise:
  assumes "evaluate M (evaluator_condition self) (get_root_condition_context C actx) log = (Inl e, log1)"
  shows "AssetAutomationEvaluator_evaluate M C self actx log = (Inl e, log1)"
  using assms by (simp add: AssetAutomationEvaluator_evaluate_def Let_def)

lemma example_evaluator_value_None:
  "AssetAutomationEvaluator_evaluate example_rules example_asset_methods
     \<lparr>evaluator_condition = RuleCondition 0, max_materializations_per_minute = None\<rparr> () []
   = (Inr (ConditionEvaluation (RuleCondition 0) {1, 2} {1, 2, 3} (Some {}) [] [((), {1, 2})] [],
           ({1, 2}, {}), {}),
      [Evaluating_rule 0, Rule_returned 2])"
  by (simp add: AssetAutomationEvaluator_evaluate_def example_asset_methods_def
        example_rules_def example_context_def empty_subset_def
        from_asset_partitions_set_def Let_def)

lemma example_evaluator_value_Some:
  "AssetAutomationEvaluator_evaluate example_rules example_asset_methods
     \<lparr>evaluator_condition = RuleCondition 0, max_materializations_per_minute = Some 1\<rparr> () []
   = (Inr (ConditionEvaluation (RuleCondition 0) {1, 2} {1, 2, 3} (Some {2}) [] [((), {1, 2})] [],
           ({1, 2}, {2}), {2}),
      [Evaluating_rule 0, Rule_returned 2, Evaluating_rule 101, Rule_returned 1])"
  by (simp add: AssetAutomationEvaluator_evaluate_def example_asset_methods_def
        example_rules_def example_context_def empty_subset_def
        from_asset_partitions_set_def Let_def)

text \<open>
  Claim C10.  Whenever \<open>AssetAutomationEvaluator.evaluate\<close> returns a triple, its third
  element is the \<open>discard_subset\<close> of the first.  When \<open>max_materializations_per_minute\<close>
  is \<open>None\<close>, the discard subset is empty and the log is the one the evaluation of the
  root condition leaves: since every evaluation of a \<open>RuleCondition\<close> writes two messages
  (lemma \<open>evaluate_Rule_log\<close>), no discard-rule condition is evaluated.  With a limit, the
  log ends with the two messages of the discard rule.
\<close>

theorem AssetAutomationEvaluator_evaluate_discard:
  assumes "AssetAutomationEvaluator_evaluate M C self actx log = (Inr (e, cursor, to_discard), log')"
  shows "discard_subset e = Some to_discard \<and>
         (max_materializations_per_minute self = None \<longrightarrow>
            to_discard = {} \<and>
            log' = snd (evaluate M (evaluator_condition self) (get_root_condition_context C actx) log)) \<and>
         (max_materializations_per_minute self = Some limit \<longrightarrow>
            log' = snd (evaluate M (evaluator_condition self) (get_root_condition_context C actx) log)
                   @ [Evaluating_rule (to_snapshot M (DiscardOnMaxMaterializationsExceededRule M limit)),
                      Rule_returned (card to_discard)])"
proof -
  let ?root = "evaluate M (evaluator_condition self) (get_root_condition_context C actx) log"
  obtain r log1 where root: "?root = (r, log1)" by (cases ?root)
  show ?thesis
  proof (cases r)
    case (Inl x)
    then have "AssetAutomationEvaluator_evaluate M C self actx log = (Inl x, log1)"
      using root by (simp add: AssetAutomationEvaluator_evaluate_raise)
    then show ?thesis using assms by simp
  next
    case (Inr ce)
    then have root': "?root = (Inr ce, log1)" using root by simp
    show ?thesis
    proof (cases "max_materializations_per_minute self")
      case None
      from AssetAutomationEvaluator_evaluate_None[OF None root'] assms
      have "e = replace_discard_subset ce empty_subset" "to_discard = empty_subset" "log' = log1"
        by simp_all
      then show ?thesis using None root' by (simp add: empty_subset_def)
    next
      case (Some n)
      let ?d = "evaluate M (RuleCondition (DiscardOnMaxMaterializationsExceededRule M n))
           ((get_root_condition_context C actx)\<lparr>context_candidate_subset := true_subset ce\<rparr>) log1"
      obtain dr log2 where d: "?d = (dr, log2)" by (cases ?d)
      obtain dv where dv: "dr = Inr dv"
      proof (cases dr)
        case (Inl x)
        then have "?d = (Inl x, log2)" using d by (simp del: evaluate.simps)
        then have False by (rule evaluate_Rule_never_raises[THEN notE])
        then show ?thesis ..
      next
        case (Inr v)
        then show ?thesis by (rule that)
      qed
      have d': "?d = (Inr dv, log2)" using d dv by simp
      from AssetAutomationEvaluator_evaluate_Some[OF Some root' d'] assms
      have eqs: "e = replace_discard_subset ce (true_subset dv)" "to_discard = true_subset dv" "log' = log2"
        by simp_all
      have "log2 = log1 @ [Evaluating_rule (to_snapshot M (DiscardOnMaxMaterializationsExceededRule M n)),
                           Rule_returned (card (true_subset dv))]"
        using d' by (rule evaluate_Rule_log)
      then show ?thesis using Some root' eqs by (simp del: evaluate.simps)
    qed
  qed
qed

theorem AssetAutomationEvaluator_evaluate_discard_witness:
  "AssetAutomationEvaluator_evaluate example_rules example_asset_methods
     \<lparr>evaluator_condition = RuleCondition 0, max_materializations_per_minute = None\<rparr> () []
   = (Inr (ConditionEvaluation (RuleCondition 0) {1, 2} {1, 2, 3} (Some {}) [] [((), {1, 2})] [],
           ({1, 2}, {}), {}),
      [Evaluating_rule 0, Rule_returned 2]) \<and>
   [Evaluating_rule 0, Rule_returned 2]
   = snd (evaluate example_rules (RuleCondition 0)
            (get_root_condition_context example_asset_methods ()) []) \<and>
   AssetAutomationEvaluator_evaluate example_rules example_asset_methods
     \<lparr>evaluator_condition = RuleCondition 0, max_materializations_per_minute = Some 1\<rparr> () []
   = (Inr (ConditionEvaluation (RuleCondition 0) {1, 2} {1, 2, 3} (Some {2}) [] [((), {1, 2})] [],
           ({1, 2}, {2}), {2}),
      [Evaluating_rule 0, Rule_returned 2, Evaluating_rule 101, Rule_returned 1]) \<and>
   [Evaluating_rule 0, Rule_returned 2, Evaluating_rule 101, Rule_returned (1::nat)]
   = snd (evaluate example_rules (RuleCondition 0)
            (get_root_condition_context example_asset_methods ()) [])
     @ [Evaluating_rule (to_snapshot example_rules
                           (DiscardOnMaxMaterializationsExceededRule example_rules 1)),
        Rule_returned (card {2::nat})]"
proof -
  note n = example_evaluator_value_None
  note s = example_evaluator_value_Some
  have a: "[Evaluating_rule 0, Rule_returned 2]
   = snd (evaluate example_rules (RuleCondition 0)
            (get_root_condition_context example_asset_methods ()) [])"
    using AssetAutomationEvaluator_evaluate_discard[OF n, of 1] by (simp del: evaluate.simps)
  have b: "[Evaluating_rule 0, Rule_returned 2, Evaluating_rule 101, Rule_returned (1::nat)]
   = snd (evaluate example_rules (RuleCondition 0)
            (get_root_condition_context example_asset_methods ()) [])
     @ [Evaluating_rule (to_snapshot example_rules
                           (DiscardOnMaxMaterializationsExceededRule example_rules 1)),
        Rule_returned (card {2::nat})]"
    using AssetAutomationEvaluator_evaluate_discard[OF s, of 1] by (simp del: evaluate.simps)
  show ?thesis using n s a b by (simp del: evaluate.simps)
qed

end
